theory Spec2Isabelle
  imports Main
begin

section \<open>Entity model (mod.py)\<close>

text \<open>
  Errors are values. \<open>Warning\<close> is the recoverable error the interactive shell prints;
  \<open>IndexError\<close> and \<open>ValueError\<close> are Python's own.
\<close>

datatype error = Warning string | IndexError | ValueError

text \<open>
  A Plugin's \<open>parent_mod\<close> is a reference to a Mod of the controller's list or to a
  transient DLC object. Mods are keyed by their name (the name of their directory under the
  mods directory), so the reference is the name together with the kind of the parent.
\<close>

datatype parent = ParentMod string | ParentDLC string

fun parent_name :: "parent \<Rightarrow> string" where
  "parent_name (ParentMod n) = n"
| "parent_name (ParentDLC n) = n"

text \<open>
  \<open>files\<close> is the insertion-ordered dict of the source: file name to full source path.
  \<open>visible\<close> is the transient flag that \<open>find\<close> writes on every component.
\<close>

record Mod =
  name :: string
  location :: string
  parent_data_dir :: string
  modconf :: string
  has_data_dir :: bool
  fomod :: bool
  enabled :: bool
  files :: "(string \<times> string) list"
  plugins :: "string list"
  visible :: bool

record Plugin =
  name :: string
  enabled :: bool
  parent_mod :: parent
  visible :: bool

record Download =
  name :: string
  location :: string
  sane :: bool
  visible :: bool

text \<open>\<open>Mod.associated_plugins\<close>: the list comprehension of the source, over the keys of \<open>files\<close>.\<close>

definition associated_plugins :: "Mod \<Rightarrow> Plugin list \<Rightarrow> Plugin list" where
  "associated_plugins m ps =
     concat (map (\<lambda>plugin.
       concat (map (\<lambda>file. if file = Plugin.name plugin then [plugin] else [])
                   (map fst (Mod.files m)))) ps)"

text \<open>\<open>s.startswith(p)\<close>.\<close>

fun startswith :: "string \<Rightarrow> string \<Rightarrow> bool" where
  "startswith s [] = True"
| "startswith [] (p # ps) = False"
| "startswith (c # cs) (p # ps) = (c = p \<and> startswith cs ps)"

subsection \<open>\<open>Mod.files_in_place\<close> (mod.py)\<close>

text \<open>
  \<open>s.split(sep, 1)[-1]\<close>: what follows the first occurrence of \<open>sep\<close> in \<open>s\<close>, or \<open>s\<close> itself
  when \<open>sep\<close> does not occur. Python raises ValueError for an empty separator; a mod's name
  is the name of a directory and is never empty, and \<open>find_after\<close> is used with a non-empty
  separator only (\<open>files_in_place\<close> guards it).
\<close>

fun find_after :: "string \<Rightarrow> string \<Rightarrow> string option" where
  "find_after sep [] = (if sep = [] then Some [] else None)"
| "find_after sep (c # cs) =
     (if startswith (c # cs) sep then Some (drop (length sep) (c # cs))
      else find_after sep cs)"

definition split_last :: "string \<Rightarrow> string \<Rightarrow> string" where
  "split_last sep s = (case find_after sep s of Some r \<Rightarrow> r | None \<Rightarrow> s)"

text \<open>\<open>s.strip(chars)\<close>: the characters of \<open>chars\<close> are dropped at both ends.\<close>

definition strip_chars :: "string \<Rightarrow> string \<Rightarrow> string" where
  "strip_chars chars s =
     rev (dropWhile (\<lambda>c. c \<in> set chars) (rev (dropWhile (\<lambda>c. c \<in> set chars) s)))"

text \<open>\<open>os.path.join(a, b)\<close> of posixpath: an absolute second component discards the first.\<close>

definition os_path_join :: "string \<Rightarrow> string \<Rightarrow> string" where
  "os_path_join a b =
     (if startswith b ''/'' then b
      else if a = [] \<or> (a \<noteq> [] \<and> last a = CHR ''/'') then a @ b
      else a @ ''/'' @ b)"

definition corrected_location :: "Mod \<Rightarrow> string \<Rightarrow> string" where
  "corrected_location m loc =
     os_path_join (strip_chars ''/'' (split_last (Mod.name m) loc)) (Mod.parent_data_dir m)"

text \<open>
  The loop of \<open>files_in_place\<close> over \<open>self.files.values()\<close>. \<open>exists\<close> is the answer of
  \<open>os.path.exists\<close> in the filesystem the call runs in. The result is the value returned
  and the lines printed.
\<close>

fun files_in_place_loop :: "(string \<Rightarrow> bool) \<Rightarrow> Mod \<Rightarrow> string list \<Rightarrow> bool \<times> string list" where
  "files_in_place_loop exists m [] = (True, [])"
| "files_in_place_loop exists m (loc # rest) =
     (if \<not> exists (corrected_location m loc)
      then (False, [''unable to find expected file '' @ [CHR 0x27]
                    @ corrected_location m loc @ [CHR 0x27]])
      else files_in_place_loop exists m rest)"

definition files_in_place :: "(string \<Rightarrow> bool) \<Rightarrow> Mod \<Rightarrow> error + bool \<times> string list" where
  "files_in_place exists m =
     (if Mod.files m \<noteq> [] \<and> Mod.name m = [] then Inl ValueError
      else Inr (files_in_place_loop exists m (map snd (Mod.files m))))"

text \<open>
  The path the documentation of \<open>files_in_place\<close> speaks of: the file's path inside the mod,
  taken relative to the game's data directory.
\<close>

definition expected_location :: "Mod \<Rightarrow> string \<Rightarrow> string" where
  "expected_location m loc =
     os_path_join (Mod.parent_data_dir m) (strip_chars ''/'' (split_last (Mod.name m) loc))"

section \<open>The controller (mod_controller.py)\<close>

datatype ComponentEnum = MOD | PLUGIN

record ModController =
  changes :: bool
  downloads :: "Download list"
  mods :: "Mod list"
  plugins :: "Plugin list"
  filter_keywords :: "string list"

text \<open>Python list indexing: a negative index counts from the end; out of range raises.\<close>

definition py_index :: "'a list \<Rightarrow> int \<Rightarrow> nat option" where
  "py_index xs i =
     (let n = int (length xs); j = (if i < 0 then n + i else i)
      in if 0 \<le> j \<and> j < n then Some (nat j) else None)"

text \<open>\<open>list.pop(i)\<close> and \<open>list.insert(i, x)\<close>; \<open>insert\<close> clamps its index, \<open>pop\<close> raises.\<close>

definition py_pop :: "'a list \<Rightarrow> int \<Rightarrow> ('a \<times> 'a list) option" where
  "py_pop xs i =
     (case py_index xs i of
        None \<Rightarrow> None
      | Some k \<Rightarrow> Some (xs ! k, take k xs @ drop (Suc k) xs))"

definition py_insert :: "'a list \<Rightarrow> int \<Rightarrow> 'a \<Rightarrow> 'a list" where
  "py_insert xs i x =
     (let n = int (length xs);
          j = (if i < 0 then max 0 (n + i) else min i n)
      in take (nat j) xs @ [x] @ drop (nat j) xs)"

subsection \<open>\<open>_set_component_state\<close>\<close>

text \<open>
  Activation of a mod: every plugin name of the mod that is not yet in the managed list is
  appended as a new disabled Plugin whose parent is the mod.
\<close>

fun show_plugins :: "Mod \<Rightarrow> string list \<Rightarrow> Plugin list \<Rightarrow> Plugin list" where
  "show_plugins subject [] ps = ps"
| "show_plugins subject (n # ns) ps =
     show_plugins subject ns
       (if n \<notin> set (map Plugin.name ps)
        then ps @ [\<lparr>Plugin.name = n, enabled = False,
                    parent_mod = ParentMod (Mod.name subject), visible = True\<rparr>]
        else ps)"

text \<open>
  Deactivation of a mod: each associated plugin is taken out of the managed list unless
  another enabled mod is associated with it. The source also writes \<open>enabled = False\<close> on
  the plugin object just before it removes it; the object leaves the list, so the write is
  not seen in the list (the managed list never holds two plugins of one name).
\<close>

definition provided_elsewhere :: "Mod \<Rightarrow> Mod list \<Rightarrow> Plugin list \<Rightarrow> Plugin \<Rightarrow> bool" where
  "provided_elsewhere subject ms ps plugin =
     list_ex (\<lambda>m. plugin \<in> set (associated_plugins m ps))
       (filter (\<lambda>i. Mod.name i \<noteq> Mod.name subject \<and> Mod.enabled i) ms)"

fun hide_plugins :: "Mod \<Rightarrow> Mod list \<Rightarrow> Plugin list \<Rightarrow> Plugin list \<Rightarrow> Plugin list" where
  "hide_plugins subject ms [] ps = ps"
| "hide_plugins subject ms (plugin # rest) ps =
     hide_plugins subject ms rest
       (if provided_elsewhere subject ms ps plugin then ps else remove1 plugin ps)"

definition set_component_state ::
  "ModController \<Rightarrow> ComponentEnum \<Rightarrow> int \<Rightarrow> bool \<Rightarrow> error + ModController" where
  "set_component_state s component index state =
     (case component of
        MOD \<Rightarrow>
          (case py_index (mods s) index of
             None \<Rightarrow> Inl IndexError
           | Some i \<Rightarrow>
               (let subject = mods s ! i;
                    starting_state = Mod.enabled subject
                in if Mod.fomod subject \<and> state \<and> \<not> Mod.has_data_dir subject
                   then Inl (Warning ''Fomods must be configured before they can be enabled.'')
                   else
                     (let subject' = subject\<lparr>Mod.enabled := state\<rparr>;
                          ms = (mods s)[i := subject'];
                          ps = (if Mod.enabled subject'
                                then show_plugins subject' (Mod.plugins subject') (plugins s)
                                else hide_plugins subject' ms
                                       (associated_plugins subject' (plugins s)) (plugins s))
                      in Inr (s\<lparr>mods := ms, plugins := ps,
                                changes := (starting_state \<noteq> Mod.enabled subject')\<rparr>))))
      | PLUGIN \<Rightarrow>
          (case py_index (plugins s) index of
             None \<Rightarrow> Inl IndexError
           | Some i \<Rightarrow>
               (let subject = plugins s ! i;
                    starting_state = Plugin.enabled subject;
                    subject' = subject\<lparr>Plugin.enabled := state\<rparr>
                in Inr (s\<lparr>plugins := (plugins s)[i := subject'],
                          changes := (starting_state \<noteq> Plugin.enabled subject')\<rparr>))))"

text \<open>
  \<open>activate\<close> and \<open>deactivate\<close> with an integer index: the call of
  \<open>_set_component_state\<close>, with an IndexError demoted to a Warning.
\<close>

definition demote :: "error + ModController \<Rightarrow> error + ModController" where
  "demote r = (case r of Inl IndexError \<Rightarrow> Inl (Warning ''list index out of range'') | _ \<Rightarrow> r)"

definition activate :: "ModController \<Rightarrow> ComponentEnum \<Rightarrow> int \<Rightarrow> error + ModController" where
  "activate s component index = demote (set_component_state s component index True)"

definition deactivate :: "ModController \<Rightarrow> ComponentEnum \<Rightarrow> int \<Rightarrow> error + ModController" where
  "deactivate s component index = demote (set_component_state s component index False)"

text \<open>The enabled flag of the component a call addresses, if the index is valid.\<close>

definition target_enabled :: "ModController \<Rightarrow> ComponentEnum \<Rightarrow> int \<Rightarrow> bool option" where
  "target_enabled s component index =
     (case component of
        MOD \<Rightarrow> map_option (\<lambda>i. Mod.enabled (mods s ! i)) (py_index (mods s) index)
      | PLUGIN \<Rightarrow> map_option (\<lambda>i. Plugin.enabled (plugins s ! i)) (py_index (plugins s) index))"

subsection \<open>\<open>move\<close>\<close>

text \<open>
  The body of \<open>move\<close> on the list selected by \<open>_get_validated_components\<close>. The result is
  the list after the call and whether the call reached \<open>self.changes = True\<close>.
\<close>

definition move_components :: "'a list \<Rightarrow> int \<Rightarrow> int \<Rightarrow> error + ('a list \<times> bool)" where
  "move_components components index new_index =
     (if index = new_index then Inr (components, False)
      else
        (let new_index' = (if new_index > int (length components) - 1
                           then int (length components) - 1 else new_index)
         in if index > int (length components) - 1
            then Inl (Warning ''Index out of range.'')
            else (case py_pop components index of
                    None \<Rightarrow> Inl IndexError
                  | Some (popped, rest) \<Rightarrow> Inr (py_insert rest new_index' popped, True))))"

definition move :: "ModController \<Rightarrow> ComponentEnum \<Rightarrow> int \<Rightarrow> int \<Rightarrow> error + ModController" where
  "move s component index new_index =
     (case component of
        MOD \<Rightarrow>
          (case move_components (mods s) index new_index of
             Inl e \<Rightarrow> Inl e
           | Inr (ms, set_changes) \<Rightarrow>
               Inr (s\<lparr>mods := ms, changes := (if set_changes then True else changes s)\<rparr>))
      | PLUGIN \<Rightarrow>
          (case move_components (plugins s) index new_index of
             Inl e \<Rightarrow> Inl e
           | Inr (ps, set_changes) \<Rightarrow>
               Inr (s\<lparr>plugins := ps, changes := (if set_changes then True else changes s)\<rparr>)))"

subsection \<open>\<open>find\<close>\<close>

text \<open>
  A string is a Python \<open>str\<close> whose characters have code points below 256, a character
  being its code point. \<open>str.lower\<close> changes the letters \<open>A\<close> to \<open>Z\<close> and the capital
  letters from \<open>0xC0\<close> to \<open>0xDE\<close> (\<open>0xD7\<close>, the multiplication sign, is not one). The test
  \<open>s.count(sub) > 0\<close>: \<open>sub\<close> occurs in \<open>s\<close> (the empty string occurs in every string).
\<close>

definition upper_letters :: string where
  "upper_letters =
     ''ABCDEFGHIJKLMNOPQRSTUVWXYZ''
     @ [CHR 0xC0, CHR 0xC1, CHR 0xC2, CHR 0xC3, CHR 0xC4, CHR 0xC5, CHR 0xC6, CHR 0xC7,
        CHR 0xC8, CHR 0xC9, CHR 0xCA, CHR 0xCB, CHR 0xCC, CHR 0xCD, CHR 0xCE, CHR 0xCF,
        CHR 0xD0, CHR 0xD1, CHR 0xD2, CHR 0xD3, CHR 0xD4, CHR 0xD5, CHR 0xD6, CHR 0xD8,
        CHR 0xD9, CHR 0xDA, CHR 0xDB, CHR 0xDC, CHR 0xDD, CHR 0xDE]"

definition lower_letters :: string where
  "lower_letters =
     ''abcdefghijklmnopqrstuvwxyz''
     @ [CHR 0xE0, CHR 0xE1, CHR 0xE2, CHR 0xE3, CHR 0xE4, CHR 0xE5, CHR 0xE6, CHR 0xE7,
        CHR 0xE8, CHR 0xE9, CHR 0xEA, CHR 0xEB, CHR 0xEC, CHR 0xED, CHR 0xEE, CHR 0xEF,
        CHR 0xF0, CHR 0xF1, CHR 0xF2, CHR 0xF3, CHR 0xF4, CHR 0xF5, CHR 0xF6, CHR 0xF8,
        CHR 0xF9, CHR 0xFA, CHR 0xFB, CHR 0xFC, CHR 0xFD, CHR 0xFE]"

definition lower_char :: "char \<Rightarrow> char" where
  "lower_char c =
     (case map_of (zip upper_letters lower_letters) c of
        Some l \<Rightarrow> l
      | None \<Rightarrow> c)"

definition lower :: "string \<Rightarrow> string" where
  "lower s = map lower_char s"

fun occurs :: "string \<Rightarrow> string \<Rightarrow> bool" where
  "occurs sub [] = (sub = [])"
| "occurs sub (c # cs) = (startswith (c # cs) sub \<or> occurs sub cs)"

text \<open>
  The keyword loop of \<open>find\<close> for one component: \<open>visible\<close> starts as true, every keyword
  first resets it to false, and the loop breaks at the first keyword that matches.
\<close>

fun keyword_loop :: "(string \<Rightarrow> bool) \<Rightarrow> string list \<Rightarrow> bool \<Rightarrow> bool" where
  "keyword_loop matches [] v = v"
| "keyword_loop matches (kw # kws) v =
     (if matches kw then True else keyword_loop matches kws False)"

definition mod_matches :: "Mod \<Rightarrow> string \<Rightarrow> bool" where
  "mod_matches m kw =
     ((lower kw = ''fomods'' \<and> Mod.fomod m) \<or> occurs (lower kw) (lower (Mod.name m)))"

definition plugin_matches :: "Plugin \<Rightarrow> string \<Rightarrow> bool" where
  "plugin_matches p kw =
     (occurs (lower kw) (lower (Plugin.name p))
      \<or> occurs (lower kw) (lower (parent_name (Plugin.parent_mod p))))"

definition download_matches :: "Download \<Rightarrow> string \<Rightarrow> bool" where
  "download_matches d kw = occurs (lower kw) (lower (Download.name d))"

text \<open>The second pass: every mod that lists the name of a visible plugin becomes visible.\<close>

definition show_providers :: "Plugin list \<Rightarrow> Mod list \<Rightarrow> Mod list" where
  "show_providers ps ms =
     foldl (\<lambda>ms plugin.
              map (\<lambda>m. if Plugin.name plugin \<in> set (Mod.plugins m)
                        then m\<lparr>Mod.visible := True\<rparr> else m) ms)
           ms (filter Plugin.visible ps)"

definition find :: "ModController \<Rightarrow> string list \<Rightarrow> ModController" where
  "find s keyword =
     (let ms1 = map (\<lambda>m. m\<lparr>Mod.visible := keyword_loop (mod_matches m) keyword True\<rparr>)
                    (mods s);
          ps1 = map (\<lambda>p. p\<lparr>Plugin.visible := keyword_loop (plugin_matches p) keyword True\<rparr>)
                    (plugins s);
          ds1 = map (\<lambda>d. d\<lparr>Download.visible :=
                              keyword_loop (download_matches d) keyword True\<rparr>)
                    (downloads s);
          ms2 = show_providers ps1 ms1;
          s2 = s\<lparr>filter_keywords := keyword, mods := ms2, plugins := ps1, downloads := ds1\<rparr>
      in if length keyword = 1
         then
           (let kw = lower (keyword ! 0);
                s3 = (if kw = ''downloads''
                      then s2\<lparr>mods := map (\<lambda>m. m\<lparr>Mod.visible := False\<rparr>) (mods s2),
                              plugins := map (\<lambda>p. p\<lparr>Plugin.visible := False\<rparr>) (plugins s2),
                              downloads := map (\<lambda>d. d\<lparr>Download.visible := True\<rparr>)
                                               (downloads s2)\<rparr>
                      else s2);
                s4 = (if kw = ''mods''
                      then s3\<lparr>plugins := map (\<lambda>p. p\<lparr>Plugin.visible := False\<rparr>) (plugins s3),
                              downloads := map (\<lambda>d. d\<lparr>Download.visible := False\<rparr>)
                                               (downloads s3),
                              mods := map (\<lambda>m. m\<lparr>Mod.visible := True\<rparr>) (mods s3)\<rparr>
                      else s3);
                s5 = (if kw = ''plugins''
                      then s4\<lparr>mods := map (\<lambda>m. m\<lparr>Mod.visible := True\<rparr>)
                                          (map (\<lambda>m. m\<lparr>Mod.visible := False\<rparr>) (mods s4)),
                              downloads := map (\<lambda>d. d\<lparr>Download.visible := False\<rparr>)
                                               (downloads s4)\<rparr>
                      else s4)
            in s5)
         else s2)"


text \<open>The length of the list \<open>_get_validated_components\<close> selects.\<close>

definition selected_length :: "ModController \<Rightarrow> ComponentEnum \<Rightarrow> int" where
  "selected_length s c =
     (case c of MOD \<Rightarrow> int (length (mods s)) | PLUGIN \<Rightarrow> int (length (plugins s)))"

text \<open>The list with the entry at position \<open>k\<close> relocated to the last position.\<close>

definition to_end :: "'a list \<Rightarrow> nat \<Rightarrow> 'a list" where
  "to_end xs k = take k xs @ drop (Suc k) xs @ [xs ! k]"

section \<open>The loader (\<open>ModController.__init__\<close>) and \<open>_save_order\<close>\<close>

text \<open>
  What the loader reads from disk. \<open>mod_folders\<close> are the Mod objects that the
  constructor builds from the directories under the mods directory, in the order the
  directory is listed (the loader takes them as new objects, not enabled); the order
  files are their lines as Python's file iteration gives them (each with its line end),
  \<open>None\<close> for a file that does not exist;
  \<open>path_exists\<close> is the answer of \<open>exists\<close> for a path; \<open>download_entries\<close> lists the
  downloads directory as pairs of entry name and "is a directory".
\<close>

record Disk =
  mod_folders :: "Mod list"
  ammo_conf :: "string list option"
  plugin_file :: "string list option"
  dlc_file :: "string list option"
  game_data :: string
  path_exists :: "string \<Rightarrow> bool"
  downloads_dir :: string
  download_entries :: "(string \<times> bool) list"

text \<open>
  \<open>str.strip()\<close>: the characters for which \<open>str.isspace\<close> holds are dropped at both ends.
  Below 256 these are the ASCII whitespace, the separators \<open>0x1C\<close> to \<open>0x1F\<close>, the next-line
  control \<open>0x85\<close> and the no-break space \<open>0xA0\<close>.
\<close>

definition is_space :: "char \<Rightarrow> bool" where
  "is_space c = (c \<in> set [CHR 0x09, CHR 0x0A, CHR 0x0B, CHR 0x0C, CHR 0x0D,
                            CHR 0x1C, CHR 0x1D, CHR 0x1E, CHR 0x1F, CHR 0x20,
                            CHR 0x85, CHR 0xA0])"

definition strip :: "string \<Rightarrow> string" where
  "strip s = rev (dropWhile is_space (rev (dropWhile is_space s)))"

text \<open>The name on a line of an order file: \<open>line.strip("*").strip()\<close>.\<close>

definition line_name :: "string \<Rightarrow> string" where
  "line_name line = strip (strip_chars ''*'' line)"

subsection \<open>The mod-order file\<close>

fun first_index :: "('a \<Rightarrow> bool) \<Rightarrow> 'a list \<Rightarrow> nat option" where
  "first_index P [] = None"
| "first_index P (x # xs) =
     (if P x then Some 0 else map_option Suc (first_index P xs))"

text \<open>
  One line of the mod-order file. The state is the mod list and \<open>ordered_mods\<close>;
  \<open>ordered_mods\<close> holds references to mods of the list, kept as their positions.
\<close>

definition conf_line :: "Mod list \<times> nat list \<Rightarrow> string \<Rightarrow> Mod list \<times> nat list" where
  "conf_line st line =
     (let ms = fst st; ordered = snd st
      in if startswith line ''#'' then st
         else
           (let name = line_name line;
                enabled = startswith line ''*''
            in if name \<notin> set (map Mod.name ms) then st
               else (case first_index (\<lambda>m. Mod.name m = name) ms of
                       None \<Rightarrow> st
                     | Some i \<Rightarrow> (ms[i := (ms ! i)\<lparr>Mod.enabled := enabled\<rparr>], ordered @ [i]))))"

text \<open>The mods that the file did not list are appended.\<close>

fun append_missing :: "Mod list \<Rightarrow> Mod list \<Rightarrow> Mod list" where
  "append_missing [] ordered_mods = ordered_mods"
| "append_missing (m # ms) ordered_mods =
     append_missing ms (if m \<notin> set ordered_mods then ordered_mods @ [m] else ordered_mods)"

definition order_mods :: "Mod list \<Rightarrow> string list option \<Rightarrow> Mod list" where
  "order_mods ms conf =
     (case conf of
        None \<Rightarrow> ms
      | Some lines \<Rightarrow>
          (let st = foldl conf_line (ms, []) lines
           in append_missing (fst st) (map (\<lambda>i. fst st ! i) (snd st))))"

subsection \<open>The plugin-order file and the DLC listing\<close>

text \<open>
  The parent of a plugin name: the mod list is scanned in reverse for the first mod whose
  plugins contain the name. The position is kept with the mod, as the loader writes
  \<open>enabled\<close> on that very mod. \<open>None\<close> stands for the transient DLC parent.
\<close>

definition provider_index :: "string \<Rightarrow> Mod list \<Rightarrow> nat option" where
  "provider_index n ms =
     map_option fst (List.find (\<lambda>im. n \<in> set (Mod.plugins (snd im))) (rev (enumerate 0 ms)))"

definition append_plugin :: "Plugin list \<Rightarrow> Plugin \<Rightarrow> Plugin list" where
  "append_plugin ps plugin =
     (if Plugin.name plugin \<notin> set (map Plugin.name ps) then ps @ [plugin] else ps)"

definition plugin_line ::
  "Disk \<Rightarrow> Mod list \<times> Plugin list \<Rightarrow> string \<Rightarrow> error + Mod list \<times> Plugin list" where
  "plugin_line d st line =
     (let ms = fst st; ps = snd st
      in if strip line = [] \<or> startswith (strip line) ''#'' then Inr st
         else
           (let name = line_name line
            in if \<not> path_exists d (os_path_join (game_data d) name) then Inr st
               else
                 (let enabled = startswith (strip line) ''*''
                  in case provider_index name ms of
                       None \<Rightarrow>
                         Inr (ms, append_plugin ps
                                    \<lparr>Plugin.name = name, enabled = enabled,
                                     parent_mod = ParentDLC name, visible = True\<rparr>)
                     | Some i \<Rightarrow>
                         (case (if enabled then files_in_place (path_exists d) (ms ! i)
                                else Inr (False, [])) of
                            Inl e \<Rightarrow> Inl e
                          | Inr in_place \<Rightarrow>
                              (let ms' = (if enabled \<and> fst in_place
                                          then ms[i := (ms ! i)\<lparr>Mod.enabled := True\<rparr>]
                                          else ms)
                               in if \<not> Mod.enabled (ms' ! i) then Inr (ms', ps)
                                  else Inr (ms', append_plugin ps
                                              \<lparr>Plugin.name = name, enabled = enabled,
                                               parent_mod = ParentMod (Mod.name (ms' ! i)),
                                               visible = True\<rparr>))))))"

fun plugin_lines ::
  "Disk \<Rightarrow> Mod list \<times> Plugin list \<Rightarrow> string list \<Rightarrow> error + Mod list \<times> Plugin list" where
  "plugin_lines d st [] = Inr st"
| "plugin_lines d st (line # rest) =
     (case plugin_line d st line of
        Inl e \<Rightarrow> Inl e
      | Inr st' \<Rightarrow> plugin_lines d st' rest)"

text \<open>
  \<open>files_with_plugins\<close>: the plugin-order file (created empty when it is missing), then the
  DLC listing when it exists.
\<close>

definition files_with_plugins :: "Disk \<Rightarrow> string list list" where
  "files_with_plugins d =
     (case plugin_file d of None \<Rightarrow> [] | Some lines \<Rightarrow> lines)
     # (case dlc_file d of None \<Rightarrow> [] | Some lines \<Rightarrow> [lines])"

fun plugin_files ::
  "Disk \<Rightarrow> Mod list \<times> Plugin list \<Rightarrow> string list list \<Rightarrow> error + Mod list \<times> Plugin list" where
  "plugin_files d st [] = Inr st"
| "plugin_files d st (file # rest) =
     (case plugin_lines d st file of
        Inl e \<Rightarrow> Inl e
      | Inr st' \<Rightarrow> plugin_files d st' rest)"


subsection \<open>Downloads\<close>

text \<open>\<open>Path.suffix\<close>: from the last dot of the name, unless that dot is first or last.\<close>

definition py_suffix :: "string \<Rightarrow> string" where
  "py_suffix n =
     (if CHR ''.'' \<notin> set n then []
      else (let i = length n - 1 - length (takeWhile (\<lambda>c. c \<noteq> CHR ''.'') (rev n))
            in if 0 < i \<and> i < length n - 1 then drop i n else []))"

text \<open>
  \<open>str.isalnum\<close> for one character: the ASCII letters and digits and, from \<open>0x80\<close> to
  \<open>0xFF\<close>, the letters, the superscript digits and the vulgar fractions of Latin-1.
\<close>

definition is_alnum :: "char \<Rightarrow> bool" where
  "is_alnum c =
     (c \<in> set (''abcdefghijklmnopqrstuvwxyzABCDEFGHIJKLMNOPQRSTUVWXYZ0123456789''
               @ [CHR 0xAA, CHR 0xB2, CHR 0xB3, CHR 0xB5, CHR 0xB9, CHR 0xBA, CHR 0xBC, CHR 0xBD,
                CHR 0xBE, CHR 0xC0, CHR 0xC1, CHR 0xC2, CHR 0xC3, CHR 0xC4, CHR 0xC5, CHR 0xC6,
                CHR 0xC7, CHR 0xC8, CHR 0xC9, CHR 0xCA, CHR 0xCB, CHR 0xCC, CHR 0xCD, CHR 0xCE,
                CHR 0xCF, CHR 0xD0, CHR 0xD1, CHR 0xD2, CHR 0xD3, CHR 0xD4, CHR 0xD5, CHR 0xD6,
                CHR 0xD8, CHR 0xD9, CHR 0xDA, CHR 0xDB, CHR 0xDC, CHR 0xDD, CHR 0xDE, CHR 0xDF,
                CHR 0xE0, CHR 0xE1, CHR 0xE2, CHR 0xE3, CHR 0xE4, CHR 0xE5, CHR 0xE6, CHR 0xE7,
                CHR 0xE8, CHR 0xE9, CHR 0xEA, CHR 0xEB, CHR 0xEC, CHR 0xED, CHR 0xEE, CHR 0xEF,
                CHR 0xF0, CHR 0xF1, CHR 0xF2, CHR 0xF3, CHR 0xF4, CHR 0xF5, CHR 0xF6, CHR 0xF8,
                CHR 0xF9, CHR 0xFA, CHR 0xFB, CHR 0xFC, CHR 0xFD, CHR 0xFE, CHR 0xFF]))"

definition new_download :: "string \<Rightarrow> string \<Rightarrow> Download" where
  "new_download n loc =
     \<lparr>Download.name = n, location = loc,
      sane = list_all (\<lambda>i. is_alnum i \<or> i \<in> set ''._-'') n, visible = True\<rparr>"

definition load_downloads :: "Disk \<Rightarrow> Download list" where
  "load_downloads d =
     map (\<lambda>e. new_download (fst e) (os_path_join (downloads_dir d) (fst e)))
       (filter (\<lambda>e. \<not> snd e \<and> lower (py_suffix (fst e)) \<in> set [''.rar'', ''.zip'', ''.7z''])
               (download_entries d))"

subsection \<open>\<open>__init__\<close>, \<open>refresh\<close> and \<open>_save_order\<close>\<close>

definition init :: "Disk \<Rightarrow> string list \<Rightarrow> error + ModController" where
  "init d keywords =
     (let ms = order_mods (map (\<lambda>m. m\<lparr>Mod.enabled := False\<rparr>) (mod_folders d))
                 (ammo_conf d)
      in case plugin_files d (ms, []) (files_with_plugins d) of
           Inl e \<Rightarrow> Inl e
         | Inr st \<Rightarrow>
             Inr (find \<lparr>changes = False, downloads = load_downloads d,
                         mods = fst st, plugins = snd st, filter_keywords = keywords\<rparr>
                       keywords))"

text \<open>\<open>refresh\<close> runs \<open>__init__\<close> again with the controller's keywords; it has no other code.\<close>

definition refresh :: "Disk \<Rightarrow> ModController \<Rightarrow> error + ModController" where
  "refresh d s = init d (filter_keywords s)"




text \<open>\<open>_save_order\<close> writes both order files, one entry per line, enabled entries starred.\<close>

definition order_line :: "bool \<Rightarrow> string \<Rightarrow> string" where
  "order_line e n = (if e then ''*'' else []) @ n @ [CHR 0x0A]"


subsection \<open>The tests of the loader on a line\<close>





text \<open>
  \<open>parent_mod.files_in_place()\<close> as the loader uses it, and the test that decides whether a
  line's plugin joins the managed list: the mod that the reverse scan finds is enabled
  once the line has been handled, either because it was enabled before or because the
  line is starred and the mod's files are in place. A line with no such mod has the DLC
  stand-in for its parent, which is always enabled.
\<close>

definition in_place :: "Disk \<Rightarrow> Mod \<Rightarrow> bool" where
  "in_place d m = (case files_in_place (path_exists d) m of Inr r \<Rightarrow> fst r | Inl e \<Rightarrow> False)"






section \<open>Operations behind the changes-pending gate\<close>

text \<open>
  \<open>install\<close>, \<open>delete\<close>, \<open>rename\<close> and \<open>configure\<close> act on the controller and on the disk.
  Each is modelled up to the point where it starts to work on archives, directories and
  links: its checks are as in the source, and what follows them (the external archive
  tool, \<open>shutil\<close>, the fomod wizard, \<open>commit\<close> and \<open>refresh\<close>) is a parameter of the
  operation. The result is the exception raised, if any, and the controller and disk as
  the call leaves them.
\<close>

type_synonym world = "ModController \<times> Disk"

text \<open>An argument hinted \<open>Union[int, str]\<close>: the shell casts it to \<open>int\<close> when it can.\<close>

datatype index_arg = IntArg int | StrArg string

datatype DeleteEnum = DELETE_MOD | DELETE_DOWNLOAD

definition expected_int :: "index_arg \<Rightarrow> error option" where
  "expected_int index =
     (case index of
        IntArg i \<Rightarrow> None
      | StrArg a \<Rightarrow>
          (if a \<noteq> ''all''
           then Some (Warning (''Expected int, got '' @ [CHR 0x27] @ a @ [CHR 0x27]))
           else None))"

definition install ::
  "(world \<Rightarrow> index_arg \<Rightarrow> error option \<times> world) \<Rightarrow> world \<Rightarrow> index_arg
     \<Rightarrow> error option \<times> world" where
  "install extract_and_refresh w index =
     (if changes (fst w)
      then (Some (Warning ''You must `commit` changes before installing a mod.''), w)
      else (case expected_int index of
              Some e \<Rightarrow> (Some e, w)
            | None \<Rightarrow> extract_and_refresh w index))"

definition delete ::
  "(world \<Rightarrow> DeleteEnum \<Rightarrow> index_arg \<Rightarrow> error option \<times> world) \<Rightarrow> world \<Rightarrow> DeleteEnum
     \<Rightarrow> index_arg \<Rightarrow> error option \<times> world" where
  "delete remove_files w component index =
     (if changes (fst w)
      then (Some (Warning ''You must `commit` changes before deleting files.''), w)
      else (case expected_int index of
              Some e \<Rightarrow> (Some e, w)
            | None \<Rightarrow> remove_files w component index))"

definition rename ::
  "(world \<Rightarrow> DeleteEnum \<Rightarrow> int \<Rightarrow> string \<Rightarrow> error option \<times> world) \<Rightarrow> world \<Rightarrow> DeleteEnum
     \<Rightarrow> int \<Rightarrow> string \<Rightarrow> error option \<times> world" where
  "rename move_files w component index new_name =
     (if changes (fst w)
      then (Some (Warning ''You must `commit` changes before renaming.''), w)
      else if new_name \<noteq> filter (\<lambda>i. is_alnum i \<or> i = CHR ''_'') new_name
      then (Some (Warning ''Names can only contain alphanumeric characters or underscores''), w)
      else move_files w component index new_name)"

definition configure ::
  "(world \<Rightarrow> int \<Rightarrow> error option \<times> world) \<Rightarrow> world \<Rightarrow> int \<Rightarrow> error option \<times> world" where
  "configure run_wizard w index =
     (if changes (fst w)
      then (Some (Warning ''You must `commit` changes before configuring a fomod.''), w)
      else (case py_index (mods (fst w)) index of
              None \<Rightarrow> (Some (Warning ''No mod at that index.''), w)
            | Some i \<Rightarrow>
                (if \<not> Mod.fomod (mods (fst w) ! i)
                 then (Some (Warning ''Only fomods can be configured.''), w)
                 else run_wizard w index)))"

text \<open>\<open>refresh\<close> on the controller and the disk: the controller is rebuilt, the disk is read.\<close>

definition refresh_world :: "world \<Rightarrow> error option \<times> world" where
  "refresh_world w =
     (case refresh (snd w) (fst w) of
        Inl e \<Rightarrow> (Some e, w)
      | Inr s' \<Rightarrow> (None, (s', snd w)))"

section \<open>Round trip through the order files\<close>







section \<open>The filesystem and the link pass of \<open>commit\<close>\<close>

text \<open>
  The filesystem is a tree: a directory lists its entries in order, and an entry is a
  regular file with its content, a symbolic link with its target, or a directory. A path
  is the list of its components from the root; link targets are absolute. \<open>lookup\<close>
  goes down through real directories only; \<open>canon\<close> resolves a path the way the
  operating system does, following every link on the way (at most 40 of them), and tells
  an existing path from one whose tail is missing and from one that cannot be resolved
  (a dangling or looping link, or a file where a directory is needed).
\<close>

type_synonym path = "string list"

datatype node = File string | Link path | Dir "(string \<times> node) list"

fun lookup :: "node \<Rightarrow> path \<Rightarrow> node option" where
  "lookup n [] = Some n"
| "lookup (Dir es) (c # p) = (case map_of es c of None \<Rightarrow> None | Some n \<Rightarrow> lookup n p)"
| "lookup (File content) (c # p) = None"
| "lookup (Link t) (c # p) = None"

























section \<open>Ownership of plugins\<close>

text \<open>The names of the files a mod records, and the plugin names enabled mods list.\<close>

definition file_names :: "Mod \<Rightarrow> string set" where
  "file_names m = set (map fst (Mod.files m))"

definition provided_names :: "Mod list \<Rightarrow> string set" where
  "provided_names ms = (\<Union>m \<in> set (filter Mod.enabled ms). set (Mod.plugins m))"

text \<open>
  Another enabled mod records a file of the given name: the test behind
  \<open>provided_elsewhere\<close>, for a plugin that is in the managed list.
\<close>

definition other_enabled_provider :: "Mod \<Rightarrow> Mod list \<Rightarrow> string \<Rightarrow> bool" where
  "other_enabled_provider subject ms n =
     list_ex (\<lambda>m. Mod.name m \<noteq> Mod.name subject \<and> Mod.enabled m \<and> n \<in> file_names m) ms"


text \<open>
  A sequence of \<open>activate\<close> and \<open>deactivate\<close> calls on mods. A call that raises leaves the
  controller as it was (both raises of \<open>_set_component_state\<close> come before any write), and
  the shell goes on with the next command.
\<close>

datatype mod_op = Activate int | Deactivate int

fun apply_mod_op :: "ModController \<Rightarrow> mod_op \<Rightarrow> error + ModController" where
  "apply_mod_op s (Activate i) = activate s MOD i"
| "apply_mod_op s (Deactivate i) = deactivate s MOD i"

fun run_mod_ops :: "ModController \<Rightarrow> mod_op list \<Rightarrow> ModController" where
  "run_mod_ops s [] = s"
| "run_mod_ops s (x # xs) =
     run_mod_ops (case apply_mod_op s x of Inl e \<Rightarrow> s | Inr s' \<Rightarrow> s') xs"




section \<open>Example states\<close>

text \<open>
  The two mods of the repository's conflict tests: both ship \<open>Data/mock_plugin.esp\<close>,
  a texture and a loose library.
\<close>

definition mock_mod :: "string \<Rightarrow> bool \<Rightarrow> Mod" where
  "mock_mod n e =
     \<lparr>Mod.name = n, location = ''/mods/'' @ n, parent_data_dir = ''/game/Data'',
      modconf = [], has_data_dir = True, fomod = False, enabled = e,
      files = [(''file.dll'', ''/mods/'' @ n @ ''/file.dll''),
               (''mock_plugin.esp'', ''/mods/'' @ n @ ''/Data/mock_plugin.esp''),
               (''mock_texture.nif'', ''/mods/'' @ n @ ''/Data/textures/mock_texture.nif'')],
      plugins = [''mock_plugin.esp''], visible = True\<rparr>"

definition mock_plugin :: "bool \<Rightarrow> parent \<Rightarrow> Plugin" where
  "mock_plugin e p =
     \<lparr>Plugin.name = ''mock_plugin.esp'', enabled = e, parent_mod = p, visible = True\<rparr>"

definition both_disabled :: ModController where
  "both_disabled =
     \<lparr>changes = False, downloads = [],
      mods = [mock_mod ''conflict_1'' False, mock_mod ''conflict_2'' False],
      plugins = [], filter_keywords = []\<rparr>"

definition both_enabled :: ModController where
  "both_enabled =
     \<lparr>changes = True, downloads = [],
      mods = [mock_mod ''conflict_1'' True, mock_mod ''conflict_2'' True],
      plugins = [mock_plugin True (ParentMod ''conflict_1'')], filter_keywords = []\<rparr>"

definition both_disabled_swapped :: ModController where
  "both_disabled_swapped =
     both_disabled\<lparr>mods := [mock_mod ''conflict_2'' False, mock_mod ''conflict_1'' False],
                   changes := True\<rparr>"

text \<open>One enabled mod with its plugin, and one download.\<close>

definition one_of_each :: ModController where
  "one_of_each =
     \<lparr>changes = False,
      downloads = [\<lparr>Download.name = ''conflict_2.7z'', location = ''/downloads/conflict_2.7z'',
                    sane = True, visible = True\<rparr>],
      mods = [mock_mod ''conflict_1'' True],
      plugins = [mock_plugin False (ParentMod ''conflict_1'')], filter_keywords = []\<rparr>"

text \<open>
  A mod with one loose plugin, and a filesystem in which the game's data directory and the
  mod's own file exist, and nothing else.
\<close>

definition loose_mod :: Mod where
  "loose_mod =
     \<lparr>Mod.name = ''loose'', location = ''/mods/loose'', parent_data_dir = ''/game/Data'',
      modconf = [], has_data_dir = False, fomod = False, enabled = False,
      files = [(''a.esp'', ''/mods/loose/a.esp'')],
      plugins = [''a.esp''], visible = True\<rparr>"

definition bare_game :: "string \<Rightarrow> bool" where
  "bare_game p = (p \<in> set [''/'', ''/game'', ''/game/Data'', ''/mods'', ''/mods/loose'',
                           ''/mods/loose/a.esp''])"

text \<open>\<open>both_enabled\<close> after \<open>deactivate mod 0\<close>.\<close>

definition first_disabled :: ModController where
  "first_disabled =
     \<lparr>changes = True, downloads = [],
      mods = [mock_mod ''conflict_1'' False, mock_mod ''conflict_2'' True],
      plugins = [mock_plugin True (ParentMod ''conflict_1'')], filter_keywords = []\<rparr>"

text \<open>\<open>both_disabled\<close> after \<open>activate mod 0\<close> and \<open>activate mod 1\<close>.\<close>

definition both_activated :: ModController where
  "both_activated =
     \<lparr>changes = True, downloads = [],
      mods = [mock_mod ''conflict_1'' True, mock_mod ''conflict_2'' True],
      plugins = [mock_plugin False (ParentMod ''conflict_1'')], filter_keywords = []\<rparr>"

text \<open>
  A disk on which both mods are listed as enabled; the plugin-order file lists
  \<open>mock_plugin.esp\<close> without a star, the DLC listing lists it starred and lists a
  base-game plugin \<open>Update.esm\<close> that no mod provides.
\<close>

definition listed_twice :: Disk where
  "listed_twice =
     \<lparr>mod_folders = [mock_mod ''conflict_1'' False, mock_mod ''conflict_2'' False],
      ammo_conf = Some [''*conflict_1'' @ [CHR 0x0A], ''*conflict_2'' @ [CHR 0x0A]],
      plugin_file = Some [''mock_plugin.esp'' @ [CHR 0x0A]],
      dlc_file = Some [''*mock_plugin.esp'' @ [CHR 0x0A], ''*Update.esm'' @ [CHR 0x0A]],
      game_data = ''/game/Data'',
      path_exists = (\<lambda>p. p \<in> set [''/game'', ''/game/Data'', ''/game/Data/mock_plugin.esp'',
                                     ''/game/Data/Update.esm'']),
      downloads_dir = ''/downloads'',
      download_entries = [(''conflict_1.7z'', False), (''notes.txt'', False),
                          (''unpacked'', True)]\<rparr>"

definition both_on :: "Mod list" where
  "both_on = [mock_mod ''conflict_1'' True, mock_mod ''conflict_2'' True]"

definition update_esm :: Plugin where
  "update_esm =
     \<lparr>Plugin.name = ''Update.esm'', enabled = True, parent_mod = ParentDLC ''Update.esm'',
      visible = True\<rparr>"

text \<open>\<open>both_activated\<close> as \<open>refresh\<close> rebuilds it from the disk \<open>listed_twice\<close>.\<close>

definition reloaded :: ModController where
  "reloaded =
     \<lparr>changes = False,
      downloads = [\<lparr>Download.name = ''conflict_1.7z'', location = ''/downloads/conflict_1.7z'',
                    sane = True, visible = True\<rparr>],
      mods = both_on,
      plugins = [mock_plugin False (ParentMod ''conflict_2''), update_esm],
      filter_keywords = []\<rparr>"

text \<open>A stand-in for the work of an operation behind its checks: it does nothing.\<close>

definition no_work :: "world \<Rightarrow> error option \<times> world" where
  "no_work w = (None, w)"









section \<open>Properties of \<open>_set_component_state\<close>\<close>

lemma py_index_lt: "py_index xs i = Some k \<Longrightarrow> k < length xs"
  by (auto simp: py_index_def Let_def split: if_splits)

lemma py_index_None_iff:
  "py_index xs i = None \<longleftrightarrow> (i < - int (length xs) \<or> int (length xs) \<le> i)"
  by (auto simp: py_index_def Let_def)

lemma py_index_length_cong: "length xs = length ys \<Longrightarrow> py_index xs i = py_index ys i"
  by (simp add: py_index_def)

lemma demote_Inr: "demote r = Inr s' \<longleftrightarrow> r = Inr s'"
  by (auto simp: demote_def split: sum.splits error.splits)

lemma set_component_state_changes:
  assumes "set_component_state s c i st = Inr s'"
  shows "\<exists>b. target_enabled s c i = Some b \<and> target_enabled s' c i = Some st
             \<and> changes s' = (b \<noteq> st)"
proof (cases c)
  case MOD
  with assms obtain k where k: "py_index (mods s) i = Some k"
    by (auto simp: set_component_state_def split: option.splits)
  have len: "length (mods s') = length (mods s)"
    using assms MOD k by (auto simp: set_component_state_def Let_def split: if_splits)
  have k': "py_index (mods s') i = Some k"
    using py_index_length_cong[OF len] k by simp
  show ?thesis
    using assms MOD k k' py_index_lt[OF k]
    by (auto simp: set_component_state_def target_enabled_def Let_def split: if_splits)
next
  case PLUGIN
  with assms obtain k where k: "py_index (plugins s) i = Some k"
    by (auto simp: set_component_state_def split: option.splits)
  have len: "length (plugins s') = length (plugins s)"
    using assms PLUGIN k by (auto simp: set_component_state_def Let_def split: if_splits)
  have k': "py_index (plugins s') i = Some k"
    using py_index_length_cong[OF len] k by simp
  show ?thesis
    using assms PLUGIN k k' py_index_lt[OF k]
    by (auto simp: set_component_state_def target_enabled_def Let_def split: if_splits)
qed

text \<open>
  C10. After a single-component \<open>activate\<close> or \<open>deactivate\<close> that returns without error,
  the changes-pending flag is exactly "the target's enabled flag differs from what it was
  before the call": the flag is assigned, not accumulated, so a call that leaves the
  target's flag as it was sets changes-pending to false whatever it was before.
\<close>

theorem activate_deactivate_changes_flag:
  "(activate s c i = Inr s' \<longrightarrow>
      (\<exists>b. target_enabled s c i = Some b \<and> target_enabled s' c i = Some True
           \<and> changes s' = (b \<noteq> True)))
   \<and> (deactivate s c i = Inr s' \<longrightarrow>
      (\<exists>b. target_enabled s c i = Some b \<and> target_enabled s' c i = Some False
           \<and> changes s' = (b \<noteq> False)))"
  using set_component_state_changes[of s c i True s']
    set_component_state_changes[of s c i False s']
  by (simp add: activate_def deactivate_def demote_Inr)

lemma activate_plugin_example:
  "activate both_enabled PLUGIN 0 = Inr (both_enabled\<lparr>changes := False\<rparr>)"
  by (simp add: activate_def demote_def set_component_state_def both_enabled_def
      py_index_def mock_plugin_def)

lemma deactivate_plugin_example:
  "deactivate both_enabled PLUGIN 0
     = Inr (both_enabled\<lparr>plugins := [mock_plugin False (ParentMod ''conflict_1'')]\<rparr>)"
  by (simp add: deactivate_def demote_def set_component_state_def both_enabled_def
      py_index_def mock_plugin_def)

theorem activate_deactivate_changes_flag_witness:
  "changes both_enabled
   \<and> activate both_enabled PLUGIN 0 = Inr (both_enabled\<lparr>changes := False\<rparr>)
   \<and> target_enabled both_enabled PLUGIN 0 = Some True
   \<and> \<not> changes (both_enabled\<lparr>changes := False\<rparr>)
   \<and> deactivate both_enabled PLUGIN 0
       = Inr (both_enabled\<lparr>plugins := [mock_plugin False (ParentMod ''conflict_1'')]\<rparr>)
   \<and> changes (both_enabled\<lparr>plugins := [mock_plugin False (ParentMod ''conflict_1'')]\<rparr>)"
  using activate_deactivate_changes_flag
      [of both_enabled PLUGIN 0 "both_enabled\<lparr>changes := False\<rparr>"]
    activate_deactivate_changes_flag
      [of both_enabled PLUGIN 0
        "both_enabled\<lparr>plugins := [mock_plugin False (ParentMod ''conflict_1'')]\<rparr>"]
  by (simp add: activate_plugin_example deactivate_plugin_example)

section \<open>Properties of \<open>move\<close>\<close>

lemma move_components_same: "move_components xs i i = Inr (xs, False)"
  by (simp add: move_components_def)

lemma move_components_clamp:
  assumes "i \<noteq> j" "py_index xs i = Some k" "j > int (length xs) - 1"
  shows "move_components xs i j = Inr (to_end xs k, True)"
proof -
  have k: "k < length xs" using assms(2) by (rule py_index_lt)
  have i: "\<not> i > int (length xs) - 1"
    using assms(2) by (auto simp: py_index_def Let_def split: if_splits)
  have len: "length (take k xs @ drop (Suc k) xs) = length xs - 1"
    using k by simp
  have "py_insert (take k xs @ drop (Suc k) xs) (int (length xs) - 1) (xs ! k) = to_end xs k"
    using k unfolding py_insert_def Let_def len to_end_def
    by (simp add: of_nat_diff)
  then show ?thesis
    using assms i by (simp add: move_components_def py_pop_def Let_def)
qed

lemma move_components_out_of_range:
  assumes "i \<noteq> j" "py_index xs i = None"
  shows "\<exists>e. move_components xs i j = Inl e"
  using assms by (simp add: move_components_def py_pop_def Let_def)

lemma move_components_success:
  assumes "i \<noteq> j" "move_components xs i j = Inr (ys, b)"
  shows "b"
  using assms
  by (auto simp: move_components_def Let_def split: if_splits option.splits)

text \<open>
  C8. \<open>move(kind, i, j)\<close>, its cases in the order the code takes them.
  With \<open>i = j\<close> the call returns the state as it was (same order, same changes-pending
  flag). Otherwise, with \<open>j\<close> beyond the last valid index and \<open>i\<close> a valid index, the call
  succeeds and the entry ends at the last position (the destination is clamped), for the
  mod list and for the plugin list. Otherwise, with \<open>i\<close> out of range (past the end, or
  below minus the length), the call raises and no state is produced. Every successful call
  with \<open>i \<noteq> j\<close> leaves the changes-pending flag set.
\<close>

theorem move_cases:
  "(i = j \<longrightarrow> move s c i j = Inr s)
   \<and> (i \<noteq> j \<and> int (length (mods s)) - 1 < j \<longrightarrow>
        (\<forall>k. py_index (mods s) i = Some k \<longrightarrow>
           move s MOD i j = Inr (s\<lparr>mods := to_end (mods s) k, changes := True\<rparr>)))
   \<and> (i \<noteq> j \<and> int (length (plugins s)) - 1 < j \<longrightarrow>
        (\<forall>k. py_index (plugins s) i = Some k \<longrightarrow>
           move s PLUGIN i j = Inr (s\<lparr>plugins := to_end (plugins s) k, changes := True\<rparr>)))
   \<and> (i \<noteq> j \<and> (i < - selected_length s c \<or> selected_length s c \<le> i) \<longrightarrow>
        (\<exists>e. move s c i j = Inl e))
   \<and> (i \<noteq> j \<and> move s c i j = Inr s' \<longrightarrow> changes s')"
proof (intro conjI impI allI)
  assume "i = j"
  then show "move s c i j = Inr s"
    by (cases c) (simp_all add: move_def move_components_same)
next
  fix k assume "i \<noteq> j \<and> int (length (mods s)) - 1 < j" "py_index (mods s) i = Some k"
  then show "move s MOD i j = Inr (s\<lparr>mods := to_end (mods s) k, changes := True\<rparr>)"
    by (simp add: move_def move_components_clamp)
next
  fix k assume "i \<noteq> j \<and> int (length (plugins s)) - 1 < j" "py_index (plugins s) i = Some k"
  then show "move s PLUGIN i j = Inr (s\<lparr>plugins := to_end (plugins s) k, changes := True\<rparr>)"
    by (simp add: move_def move_components_clamp)
next
  assume a: "i \<noteq> j \<and> (i < - selected_length s c \<or> selected_length s c \<le> i)"
  show "\<exists>e. move s c i j = Inl e"
  proof (cases c)
    case MOD
    with a have "py_index (mods s) i = None"
      by (simp add: py_index_None_iff selected_length_def)
    with a obtain e where "move_components (mods s) i j = Inl e"
      using move_components_out_of_range by blast
    then show ?thesis using MOD by (simp add: move_def)
  next
    case PLUGIN
    with a have "py_index (plugins s) i = None"
      by (simp add: py_index_None_iff selected_length_def)
    with a obtain e where "move_components (plugins s) i j = Inl e"
      using move_components_out_of_range by blast
    then show ?thesis using PLUGIN by (simp add: move_def)
  qed
next
  assume a: "i \<noteq> j \<and> move s c i j = Inr s'"
  show "changes s'"
  proof (cases c)
    case MOD
    with a obtain ys b where m: "move_components (mods s) i j = Inr (ys, b)"
      and s': "s' = s\<lparr>mods := ys, changes := (if b then True else changes s)\<rparr>"
      by (auto simp: move_def split: sum.splits)
    from a m have b using move_components_success by blast
    then show ?thesis using s' by simp
  next
    case PLUGIN
    with a obtain ys b where m: "move_components (plugins s) i j = Inr (ys, b)"
      and s': "s' = s\<lparr>plugins := ys, changes := (if b then True else changes s)\<rparr>"
      by (auto simp: move_def split: sum.splits)
    from a m have b using move_components_success by blast
    then show ?thesis using s' by simp
  qed
qed

lemma move_example_clamped: "move both_disabled MOD 1 0 = Inr both_disabled_swapped"
  by (simp add: move_def move_components_def py_pop_def py_index_def py_insert_def
      both_disabled_def both_disabled_swapped_def)

lemma selected_length_example: "selected_length both_disabled MOD = 2"
  by (simp add: selected_length_def both_disabled_def)

lemma py_index_example_mods: "py_index (mods both_disabled) 0 = Some 0"
  by (simp add: py_index_def both_disabled_def)

lemma to_end_example: "to_end (mods both_disabled) 0 = mods both_disabled_swapped"
  by (simp add: to_end_def both_disabled_def both_disabled_swapped_def)

lemma py_index_example_plugins: "py_index (plugins both_enabled) (-1) = Some 0"
  by (simp add: py_index_def both_enabled_def)

theorem move_cases_witness:
  "move both_disabled MOD 5 5 = Inr both_disabled
   \<and> \<not> changes both_disabled
   \<and> move both_disabled MOD 0 7 = Inr both_disabled_swapped
   \<and> move both_enabled PLUGIN (-1) 5 = Inr both_enabled
   \<and> (\<exists>e. move both_disabled MOD 2 0 = Inl e)
   \<and> (\<exists>e. move both_disabled MOD (-3) 0 = Inl e)
   \<and> move both_disabled MOD 1 0 = Inr both_disabled_swapped
   \<and> changes both_disabled_swapped"
proof -
  have c1: "move both_disabled MOD 5 5 = Inr both_disabled"
    using move_cases[of 5 5 both_disabled MOD both_disabled] by simp
  have c2: "move both_disabled MOD 0 7 = Inr both_disabled_swapped"
    using move_cases[of 0 7 both_disabled MOD both_disabled_swapped]
      py_index_example_mods to_end_example
    by (simp add: both_disabled_def both_disabled_swapped_def)
  have c3: "move both_enabled PLUGIN (-1) 5 = Inr both_enabled"
    using move_cases[of "-1" 5 both_enabled PLUGIN both_enabled] py_index_example_plugins
    by (simp add: both_enabled_def to_end_def)
  have c4: "\<exists>e. move both_disabled MOD 2 0 = Inl e"
    using move_cases[of 2 0 both_disabled MOD both_disabled_swapped] selected_length_example
    by simp
  have c5: "\<exists>e. move both_disabled MOD (-3) 0 = Inl e"
    using move_cases[of "-3" 0 both_disabled MOD both_disabled_swapped] selected_length_example
    by simp
  have c6: "changes both_disabled_swapped"
    using move_cases[of 1 0 both_disabled MOD both_disabled_swapped] move_example_clamped
    by simp
  show ?thesis
    using c1 c2 c3 c4 c5 c6 move_example_clamped by (simp add: both_disabled_def)
qed

section \<open>Properties of \<open>find\<close>\<close>

lemma find_downloads_keyword:
  assumes "lower kw = ''downloads''"
  shows "list_all Download.visible (downloads (find s [kw]))
         \<and> list_all (\<lambda>m. \<not> Mod.visible m) (mods (find s [kw]))
         \<and> list_all (\<lambda>p. \<not> Plugin.visible p) (plugins (find s [kw]))"
  using assms by (simp add: find_def Let_def list_all_iff)

lemma find_mods_keyword:
  assumes "lower kw = ''mods''"
  shows "list_all (\<lambda>d. \<not> Download.visible d) (downloads (find s [kw]))
         \<and> list_all Mod.visible (mods (find s [kw]))
         \<and> list_all (\<lambda>p. \<not> Plugin.visible p) (plugins (find s [kw]))"
  using assms by (simp add: find_def Let_def list_all_iff)

lemma find_plugins_keyword:
  assumes "lower kw = ''plugins''"
  shows "list_all (\<lambda>d. \<not> Download.visible d) (downloads (find s [kw]))
         \<and> list_all Mod.visible (mods (find s [kw]))
         \<and> map Plugin.visible (plugins (find s [kw]))
             = map (\<lambda>p. plugin_matches p kw) (plugins s)"
  using assms by (simp add: find_def Let_def list_all_iff)

text \<open>
  C9. \<open>find\<close> with the single keyword \<open>plugins\<close>, on a controller that holds one mod, its
  plugin \<open>mock_plugin.esp\<close> and one download: the mod is visible and the plugin is not.
  The branch for \<open>plugins\<close> hides the mods and the downloads and then shows the mods again;
  it never writes the plugins, which keep what the keyword pass gave them. The branches
  for \<open>downloads\<close> and \<open>mods\<close> show their own category and hide the other two.
\<close>

theorem find_plugins_keyword_shows_mods:
  "map Mod.visible (mods (find one_of_each [''plugins''])) = [True]
   \<and> map Plugin.visible (plugins (find one_of_each [''plugins''])) = [False]
   \<and> map Download.visible (downloads (find one_of_each [''plugins''])) = [False]"
  by (simp add: find_def one_of_each_def Let_def lower_def lower_char_def upper_letters_def
      lower_letters_def mock_mod_def mock_plugin_def plugin_matches_def mod_matches_def
      download_matches_def show_providers_def)

section \<open>Properties of \<open>files_in_place\<close>\<close>

lemma os_path_join_absolute: "startswith b ''/'' \<Longrightarrow> os_path_join a b = b"
  by (simp add: os_path_join_def)

lemma files_in_place_loop_absolute:
  "startswith (Mod.parent_data_dir m) ''/'' \<Longrightarrow>
   fst (files_in_place_loop ex m locs) = (locs = [] \<or> ex (Mod.parent_data_dir m))"
  by (induction locs) (auto simp: corrected_location_def os_path_join_absolute)

text \<open>
  C5. \<open>files_in_place\<close> on a mod whose one recorded file \<open>a.esp\<close> is absent from the
  game's data directory \<open>/game/Data\<close> (the directory itself exists): the call returns
  true and prints nothing, although \<open>/game/Data/a.esp\<close> does not exist. The path it tests
  is \<open>os.path.join(relative, parent_data_dir)\<close>, which is the data directory itself
  whenever that directory is given as an absolute path.
\<close>

theorem files_in_place_ignores_missing_file:
  "files_in_place bare_game loose_mod = Inr (True, [])
   \<and> expected_location loose_mod ''/mods/loose/a.esp'' = ''/game/Data/a.esp''
   \<and> \<not> bare_game ''/game/Data/a.esp''
   \<and> corrected_location loose_mod ''/mods/loose/a.esp'' = ''/game/Data''"
  by (simp add: files_in_place_def loose_mod_def corrected_location_def os_path_join_def
      bare_game_def expected_location_def split_last_def strip_chars_def)

section \<open>Activation and deactivation of mods\<close>

lemma set_associated_plugins:
  "set (associated_plugins m ps) = {p \<in> set ps. Plugin.name p \<in> file_names m}"
  by (force simp: associated_plugins_def file_names_def)

lemma provided_elsewhere_iff:
  "provided_elsewhere subject ms ps p
     \<longleftrightarrow> p \<in> set ps \<and> other_enabled_provider subject ms (Plugin.name p)"
  by (auto simp: provided_elsewhere_def other_enabled_provider_def list_ex_iff
      set_associated_plugins)

lemma remove1_filter_distinct: "distinct xs \<Longrightarrow> remove1 x xs = filter (\<lambda>y. y \<noteq> x) xs"
proof (induction xs)
  case Nil
  then show ?case by simp
next
  case (Cons a xs)
  show ?case
  proof (cases "a = x")
    case True
    with Cons.prems have "x \<notin> set xs" by simp
    then have "filter (\<lambda>y. y \<noteq> x) xs = xs" by (auto simp: filter_id_conv)
    with True show ?thesis by simp
  next
    case False
    with Cons show ?thesis by simp
  qed
qed

lemma hide_plugins_filter:
  "distinct ps \<Longrightarrow>
   hide_plugins subject ms assoc ps
     = filter (\<lambda>p. p \<notin> set assoc \<or> other_enabled_provider subject ms (Plugin.name p)) ps"
proof (induction assoc arbitrary: ps)
  case Nil
  then show ?case by simp
next
  case (Cons q rest)
  show ?case
  proof (cases "q \<in> set ps \<and> \<not> other_enabled_provider subject ms (Plugin.name q)")
    case True
    then have step: "hide_plugins subject ms (q # rest) ps
        = hide_plugins subject ms rest (filter (\<lambda>y. y \<noteq> q) ps)"
      using Cons.prems by (simp add: provided_elsewhere_iff remove1_filter_distinct)
    have "distinct (filter (\<lambda>y. y \<noteq> q) ps)" using Cons.prems by simp
    from Cons.IH[OF this] step True show ?thesis
      by (auto intro!: filter_cong)
  next
    case False
    then have step: "hide_plugins subject ms (q # rest) ps = hide_plugins subject ms rest ps"
      by (auto simp: provided_elsewhere_iff remove1_idem)
    from Cons.IH[OF Cons.prems] step False show ?thesis
      by (auto intro!: filter_cong)
  qed
qed


lemma other_enabled_provider_update:
  assumes "k < length ms"
  shows "other_enabled_provider ((ms ! k)\<lparr>Mod.enabled := b\<rparr>) (ms[k := (ms ! k)\<lparr>Mod.enabled := b\<rparr>]) n
         = other_enabled_provider (ms ! k) ms n"
proof -
  let ?m = "ms ! k" and ?m' = "(ms ! k)\<lparr>Mod.enabled := b\<rparr>"
  have ms: "ms = take k ms @ ?m # drop (Suc k) ms"
    using assms by (simp add: id_take_nth_drop)
  have ms': "ms[k := ?m'] = take k ms @ ?m' # drop (Suc k) ms"
    using assms by (simp add: upd_conv_take_nth_drop)
  show ?thesis
    unfolding other_enabled_provider_def ms'
    by (subst (3) ms) (simp add: list_ex_iff)
qed

lemma deactivate_mod_result:
  assumes "py_index (mods s) i = Some k" and "distinct (plugins s)"
  shows "deactivate s MOD i =
     Inr (s\<lparr>mods := (mods s)[k := (mods s ! k)\<lparr>Mod.enabled := False\<rparr>],
            plugins := filter (\<lambda>p. Plugin.name p \<notin> file_names (mods s ! k)
                                 \<or> other_enabled_provider (mods s ! k) (mods s) (Plugin.name p))
                              (plugins s),
            changes := Mod.enabled (mods s ! k)\<rparr>)"
proof -
  have k: "k < length (mods s)" using assms(1) by (rule py_index_lt)
  have "hide_plugins ((mods s ! k)\<lparr>Mod.enabled := False\<rparr>)
          ((mods s)[k := (mods s ! k)\<lparr>Mod.enabled := False\<rparr>])
          (associated_plugins ((mods s ! k)\<lparr>Mod.enabled := False\<rparr>) (plugins s)) (plugins s)
        = filter (\<lambda>p. Plugin.name p \<notin> file_names (mods s ! k)
                     \<or> other_enabled_provider (mods s ! k) (mods s) (Plugin.name p)) (plugins s)"
    using assms(2) k
    by (auto simp: hide_plugins_filter set_associated_plugins other_enabled_provider_update
        file_names_def intro!: filter_cong)
  then show ?thesis
    using assms(1) by (simp add: deactivate_def demote_def set_component_state_def Let_def)
qed



lemma deactivate_first_example: "deactivate both_enabled MOD 0 = Inr first_disabled"
  by code_simp

text \<open>
  C2, as stated, fails. Both mods are enabled and the plugin \<open>mock_plugin.esp\<close> has
  \<open>conflict_1\<close> as its parent. After \<open>deactivate mod 0\<close> the plugin is still in the list,
  as \<open>conflict_2\<close> records the file too, but its parent is still \<open>conflict_1\<close>, the mod
  that was just disabled: \<open>_set_component_state\<close> never writes \<open>parent_mod\<close>.
\<close>

theorem deactivate_no_reassign_counterexample:
  "deactivate both_enabled MOD 0 = Inr first_disabled
   \<and> map Plugin.parent_mod (plugins first_disabled) = [ParentMod ''conflict_1'']
   \<and> map (\<lambda>m. (Mod.name m, Mod.enabled m)) (mods first_disabled)
       = [(''conflict_1'', False), (''conflict_2'', True)]
   \<and> other_enabled_provider (mods both_enabled ! 0) (mods both_enabled) ''mock_plugin.esp''"
  by code_simp

text \<open>
  C2, amended. In a managed list that holds each plugin name once, deactivating the mod
  at a valid index succeeds, and the managed list afterwards is the list before without
  the plugins whose name the mod records as a file and no other enabled mod records.
  So a plugin associated with the mod stays exactly when another enabled mod records a
  file of its name; a plugin that stays is the entry it was (same enabled flag, same
  parent), at its place in the order.
\<close>

theorem deactivate_mod_plugins:
  assumes "py_index (mods s) i = Some k" and "distinct (map Plugin.name (plugins s))"
  shows "\<exists>s'. deactivate s MOD i = Inr s'
           \<and> plugins s' = filter (\<lambda>p. Plugin.name p \<notin> file_names (mods s ! k)
                     \<or> other_enabled_provider (mods s ! k) (mods s) (Plugin.name p)) (plugins s)
           \<and> (\<forall>p \<in> set (plugins s). Plugin.name p \<in> file_names (mods s ! k) \<longrightarrow>
                 (p \<in> set (plugins s')
                    \<longleftrightarrow> other_enabled_provider (mods s ! k) (mods s) (Plugin.name p)))
           \<and> mods s' = (mods s)[k := (mods s ! k)\<lparr>Mod.enabled := False\<rparr>]"
proof -
  have "distinct (plugins s)" using assms(2) by (simp add: distinct_map)
  from deactivate_mod_result[OF assms(1) this] show ?thesis by auto
qed

lemma both_enabled_index: "py_index (mods both_enabled) 0 = Some 0"
  by (simp add: py_index_def both_enabled_def)

lemma both_enabled_distinct: "distinct (map Plugin.name (plugins both_enabled))"
  by (simp add: both_enabled_def)

lemma both_enabled_associated:
  "list_all (\<lambda>p. Plugin.name p \<in> file_names (mods both_enabled ! 0)) (plugins both_enabled)"
  by code_simp

lemma first_disabled_plugins: "plugins first_disabled = plugins both_enabled"
  by (simp add: first_disabled_def both_enabled_def)

theorem deactivate_mod_plugins_witness:
  "py_index (mods both_enabled) 0 = Some 0
   \<and> distinct (map Plugin.name (plugins both_enabled))
   \<and> deactivate both_enabled MOD 0 = Inr first_disabled
   \<and> plugins first_disabled = plugins both_enabled
   \<and> list_all (\<lambda>p. Plugin.name p \<in> file_names (mods both_enabled ! 0)) (plugins both_enabled)"
  using deactivate_mod_plugins[OF both_enabled_index both_enabled_distinct]
    deactivate_first_example both_enabled_index both_enabled_distinct
    both_enabled_associated first_disabled_plugins
  by simp

section \<open>The ownership invariant\<close>








lemma provided_names_split:
  "provided_names (xs @ m # ys)
     = provided_names xs \<union> (if Mod.enabled m then set (Mod.plugins m) else {})
         \<union> provided_names ys"
  by (auto simp: provided_names_def)









lemma activate_twice_example:
  "run_mod_ops both_disabled [Activate 0, Activate 1] = both_activated"
  by code_simp







section \<open>Properties of the loader\<close>













































section \<open>The changes-pending gate\<close>

lemma refresh_example: "refresh listed_twice both_activated = Inr reloaded"
  by code_simp

lemma changes_find: "changes (find s kws) = changes s"
  by (simp add: find_def Let_def)

lemma refresh_clears_changes: "refresh d s = Inr s' \<Longrightarrow> \<not> changes s'"
  by (auto simp: refresh_def init_def Let_def changes_find split: sum.splits)

text \<open>
  C7, as stated, fails for \<open>refresh\<close>. With uncommitted changes pending (two mods were
  activated in memory), \<open>refresh\<close> raises nothing: it rebuilds the controller from the
  disk, the plugin list is no longer the one in memory, and the flag is cleared.
\<close>

theorem refresh_not_gated_counterexample:
  "changes both_activated
   \<and> refresh_world (both_activated, listed_twice) = (None, (reloaded, listed_twice))
   \<and> plugins reloaded \<noteq> plugins both_activated
   \<and> \<not> changes reloaded"
  by (simp add: refresh_world_def refresh_example)
    (simp add: both_activated_def reloaded_def mock_plugin_def)

text \<open>
  C7, amended. Whenever the changes-pending flag is set, each of \<open>install\<close>, \<open>delete\<close>,
  \<open>rename\<close> and \<open>configure\<close> raises a Warning and leaves the controller and the disk as
  they were, whatever the work behind its checks would do. \<open>refresh\<close> has no such check:
  whenever the loader succeeds, \<open>refresh\<close> replaces the controller by the one rebuilt from
  the disk, with the flag cleared.
\<close>

theorem gated_operations:
  "(changes (fst w) \<longrightarrow>
      (\<exists>msg. install extract_and_refresh w index = (Some (Warning msg), w))
      \<and> (\<exists>msg. delete remove_files w component index = (Some (Warning msg), w))
      \<and> (\<exists>msg. rename move_files w component i new_name = (Some (Warning msg), w))
      \<and> (\<exists>msg. configure run_wizard w i = (Some (Warning msg), w)))
   \<and> (refresh (snd w) (fst w) = Inr s' \<longrightarrow>
        refresh_world w = (None, (s', snd w)) \<and> \<not> changes s')"
  by (auto simp: install_def delete_def rename_def configure_def refresh_world_def
      dest: refresh_clears_changes)

lemma install_when_clean:
  "install (\<lambda>w index. no_work w) (reloaded, listed_twice) (IntArg 0)
     = (None, (reloaded, listed_twice))"
  by (simp add: install_def expected_int_def no_work_def reloaded_def)

theorem gated_operations_witness:
  "changes (fst (both_activated, listed_twice))
   \<and> (\<exists>msg. install (\<lambda>w index. no_work w) (both_activated, listed_twice) (IntArg 0)
               = (Some (Warning msg), (both_activated, listed_twice)))
   \<and> (\<exists>msg. delete (\<lambda>w c index. no_work w) (both_activated, listed_twice) DELETE_MOD (IntArg 0)
               = (Some (Warning msg), (both_activated, listed_twice)))
   \<and> (\<exists>msg. rename (\<lambda>w c i n. no_work w) (both_activated, listed_twice) DELETE_MOD 0 ''renamed''
               = (Some (Warning msg), (both_activated, listed_twice)))
   \<and> (\<exists>msg. configure (\<lambda>w i. no_work w) (both_activated, listed_twice) 0
               = (Some (Warning msg), (both_activated, listed_twice)))
   \<and> refresh listed_twice both_activated = Inr reloaded
   \<and> refresh_world (both_activated, listed_twice) = (None, (reloaded, listed_twice))
   \<and> \<not> changes reloaded
   \<and> install (\<lambda>w index. no_work w) (reloaded, listed_twice) (IntArg 0)
       = (None, (reloaded, listed_twice))"
proof -
  have c: "changes (fst (both_activated, listed_twice))"
    by (simp add: both_activated_def)
  show ?thesis
    using gated_operations
        [where w = "(both_activated, listed_twice)" and s' = reloaded
           and extract_and_refresh = "\<lambda>w index. no_work w" and index = "IntArg 0"
           and remove_files = "\<lambda>w c index. no_work w" and component = DELETE_MOD
           and move_files = "\<lambda>w c i n. no_work w" and i = 0 and new_name = "''renamed''"
           and run_wizard = "\<lambda>w i. no_work w"]
      c refresh_example install_when_clean
    by simp
qed

section \<open>Writing the order files and loading them again\<close>





lemma order_line_shape:
  "order_line e n = ((if e then ''*'' else []) @ n) @ [CHR 0x0A]"
  by (simp add: order_line_def)


































section \<open>The link pass keeps regular files\<close>





lemma lookup_Dir_Cons:
  "lookup (Dir es) (c # p) = Some x \<longleftrightarrow> (\<exists>n. map_of es c = Some n \<and> lookup n p = Some x)"
  by (auto split: option.splits)

lemma lookup_File_path: "lookup n p = Some (File c) \<Longrightarrow> p \<noteq> [] \<Longrightarrow> \<exists>es. n = Dir es"
  by (cases n; cases p) auto



























end
